theory Spec2Isabelle
  imports Main
begin

section \<open>Data model of \<open>kube_util.go\<close>\<close>

text \<open>
  The Go file is a thin layer over the Kubernetes client library. Its own data are the
  Kubernetes API objects it builds and inspects. Each Go struct is a record holding the
  fields the file reads or writes; a Go string is a \<open>string\<close>, a slice is a list
  (the nil slice and the empty slice are both \<open>[]\<close>), a pointer or interface that may
  be nil is an \<open>option\<close>. Field names carry the struct's name as a prefix, since
  several structs have a field \<open>Name\<close>.
\<close>

subsection \<open>How a call can end\<close>

text \<open>
  A Go call of this file ends in one of three ways: \<open>log.Fatalf\<close> prints and exits the
  process (\<open>Fatal\<close>), a run-time panic such as an index out of range unwinds the stack
  (\<open>Panic\<close>), or the function returns (\<open>Return\<close>). A returned pair \<open>(value, error)\<close> is
  a sum: \<open>Inl\<close> the error text, \<open>Inr\<close> the value.
\<close>

datatype 'a outcome = Fatal string | Panic string | Return 'a

subsection \<open>Kubernetes objects\<close>

record SecretKeySelector =
  SecretKeySelector_Name :: string
  SecretKeySelector_Key :: string

record EnvVarSource =
  EnvVarSource_SecretKeyRef :: "SecretKeySelector option"

record EnvVar =
  EnvVar_Name :: string
  EnvVar_Value :: string
  EnvVar_ValueFrom :: "EnvVarSource option"

record SecurityContext =
  SecurityContext_Privileged :: "bool option"

record Container =
  Container_Name :: string
  Container_Image :: string
  Container_Command :: "string list"
  Container_Args :: "string list"
  Container_TTY :: bool
  Container_Stdin :: bool
  Container_SecurityContext :: "SecurityContext option"
  Container_ImagePullPolicy :: string
  Container_Env :: "EnvVar list"
  Container_VolumeMounts :: "string list"

record PodSpec =
  PodSpec_Containers :: "Container list"
  PodSpec_InitContainers :: "Container list"
  PodSpec_RestartPolicy :: string
  PodSpec_Volumes :: "string list"
  PodSpec_ImagePullSecrets :: "string list"

record PodStatus =
  PodStatus_Phase :: string

record ObjectMeta =
  ObjectMeta_Name :: string
  ObjectMeta_Namespace :: string

record Pod =
  Pod_ObjectMeta :: ObjectMeta
  Pod_Spec :: PodSpec
  Pod_Status :: PodStatus

text \<open>Go promotes the fields of the embedded \<open>ObjectMeta\<close>: \<open>pod.Name\<close>, \<open>pod.Namespace\<close>.\<close>

definition Pod_Name :: "Pod \<Rightarrow> string" where
  "Pod_Name p = ObjectMeta_Name (Pod_ObjectMeta p)"

definition Pod_Namespace :: "Pod \<Rightarrow> string" where
  "Pod_Namespace p = ObjectMeta_Namespace (Pod_ObjectMeta p)"

text \<open>The string constants of \<open>k8s.io/api/core/v1\<close> that the file names.\<close>

definition PodRunning :: string where
  "PodRunning = ''Running''"

definition PullAlways :: string where
  "PullAlways = ''Always''"

definition RestartPolicyOnFailure :: string where
  "RestartPolicyOnFailure = ''OnFailure''"

section \<open>\<open>containerToAttachTo\<close>\<close>

text \<open>
  The function returns \<open>&pod.Spec.Containers[i]\<close> or \<open>&pod.Spec.InitContainers[i]\<close>: a
  pointer into one of the pod's two slices. The model keeps which slice and which index.
\<close>

datatype container_ref = InContainers nat | InInitContainers nat

fun deref_container :: "Pod \<Rightarrow> container_ref \<Rightarrow> Container" where
  "deref_container pod (InContainers i) = PodSpec_Containers (Pod_Spec pod) ! i"
| "deref_container pod (InInitContainers i) = PodSpec_InitContainers (Pod_Spec pod) ! i"

text \<open>
  \<open>for i := range cs { if cs[i].Name == container { return &cs[i], nil } }\<close>, started at
  index \<open>i\<close>: the index at which the loop returns, or \<open>None\<close> when it falls through.
\<close>

function name_loop :: "string \<Rightarrow> Container list \<Rightarrow> nat \<Rightarrow> nat option" where
  "name_loop container cs i =
     (if i < length cs
      then (if Container_Name (cs ! i) = container then Some i
            else name_loop container cs (Suc i))
      else None)"
  by pat_completeness auto
termination
  by (relation "measure (\<lambda>(container, cs, i). length cs - i)") auto

declare name_loop.simps [simp del]

definition container_not_found :: "string \<Rightarrow> string" where
  "container_not_found container = ''container not found ('' @ container @ '')''"

definition containerToAttachTo :: "string \<Rightarrow> Pod \<Rightarrow> (string + container_ref) outcome" where
  "containerToAttachTo container pod =
     (if length container > 0
      then (case name_loop container (PodSpec_Containers (Pod_Spec pod)) 0 of
              Some i \<Rightarrow> Return (Inr (InContainers i))
            | None \<Rightarrow>
                (case name_loop container (PodSpec_InitContainers (Pod_Spec pod)) 0 of
                   Some i \<Rightarrow> Return (Inr (InInitContainers i))
                 | None \<Rightarrow> Return (Inl (container_not_found container))))
      else (if 0 < length (PodSpec_Containers (Pod_Spec pod))
            then Return (Inr (InContainers 0))
            else Panic ''runtime error: index out of range [0] with length 0''))"

text \<open>The first position of a list whose container carries a given name.\<close>

definition first_named :: "string \<Rightarrow> Container list \<Rightarrow> nat \<Rightarrow> bool" where
  "first_named container cs i \<longleftrightarrow>
     i < length cs \<and> Container_Name (cs ! i) = container \<and>
     (\<forall>j < i. Container_Name (cs ! j) \<noteq> container)"

section \<open>The Kubernetes client as an environment\<close>

text \<open>
  Everything the file does to a cluster goes through \<open>client-go\<close>. Those calls are
  parameters of the model: a record of functions that say, for each call, whether it
  fails (with which error text) or what it returns. Configurations, client sets and
  stream executors are opaque handles. Readers and writers (\<open>io.Reader\<close>,
  \<open>io.Writer\<close>) are handles too; an interface value may be nil, which is \<open>None\<close>.
\<close>

datatype rest_config = RestConfig nat
datatype clientset = Clientset nat
datatype executor = Executor nat
datatype reader = Reader nat
datatype writer = Writer nat
datatype terminal_size_queue = TerminalSizeQueue nat

record PodAttachOptions =
  PodAttachOptions_Stdin :: bool
  PodAttachOptions_Stdout :: bool
  PodAttachOptions_Stderr :: bool
  PodAttachOptions_TTY :: bool
  PodAttachOptions_Container :: string

record StreamOptions =
  StreamOptions_Stdin :: "reader option"
  StreamOptions_Stdout :: "writer option"
  StreamOptions_Stderr :: "writer option"
  StreamOptions_Tty :: bool
  StreamOptions_TerminalSizeQueue :: "terminal_size_queue option"

text \<open>
  The request that \<open>attach\<close> builds with the REST client's builder: verb, resource,
  name, namespace, sub-resource, and the attach options encoded as its parameters
  (\<open>None\<close> until \<open>VersionedParams\<close> is called). \<open>req.URL()\<close> is determined by these.
\<close>

record Request =
  Request_Verb :: string
  Request_Resource :: string
  Request_Name :: string
  Request_Namespace :: string
  Request_SubResource :: string
  Request_Params :: "PodAttachOptions option"

record kube_env =
  BuildConfigFromFlags :: "string \<Rightarrow> string \<Rightarrow> string + rest_config"
  NewForConfig :: "rest_config \<Rightarrow> string + clientset"
  PodsCreate :: "clientset \<Rightarrow> string \<Rightarrow> Pod \<Rightarrow> string + Pod"
  NewSPDYExecutor :: "rest_config \<Rightarrow> string \<Rightarrow> Request \<Rightarrow> string + executor"
  Stream :: "executor \<Rightarrow> StreamOptions \<Rightarrow> string option"

definition getKubeClient :: "kube_env \<Rightarrow> string \<Rightarrow> string + (clientset \<times> rest_config)" where
  "getKubeClient env kubeconfig =
     (case BuildConfigFromFlags env [] kubeconfig of
        Inl err \<Rightarrow>
          Inl (''could not get kubernetes config from kubeconfig '' @ [CHR 0x27] @
               kubeconfig @ [CHR 0x27] @ '': '' @ err)
      | Inr config \<Rightarrow>
          (case NewForConfig env config of
             Inl err \<Rightarrow> Inl (''could not get kubernetes client: '' @ err)
           | Inr clientset \<Rightarrow> Inr (clientset, config)))"

section \<open>\<open>createPod\<close>\<close>

text \<open>
  \<open>Config\<close> and its secrets are declared in another file of the package; the records
  hold the fields that \<open>createPod\<close> reads.
\<close>

record Secret =
  Secret_EnvVarName :: string
  Secret_SecretName :: string
  Secret_SecretKey :: string

record Config =
  Config_Kubeconfig :: string
  Config_Namespace :: string
  Config_Name :: string
  Config_Image :: string
  Config_Secrets :: "Secret list"

definition boolPtr :: "bool \<Rightarrow> bool option" where
  "boolPtr b = Some b"

text \<open>
  \<open>for _, s := range cfg.Secrets { env = append(env, v1.EnvVar{...}) }\<close>, with the
  slice \<open>env\<close> built so far as the accumulator.
\<close>

fun secrets_loop :: "Secret list \<Rightarrow> EnvVar list \<Rightarrow> EnvVar list" where
  "secrets_loop [] env = env"
| "secrets_loop (s # ss) env =
     secrets_loop ss
       (env @ [\<lparr>EnvVar_Name = Secret_EnvVarName s,
                EnvVar_Value = [],
                EnvVar_ValueFrom = Some \<lparr>EnvVarSource_SecretKeyRef =
                  Some \<lparr>SecretKeySelector_Name = Secret_SecretName s,
                        SecretKeySelector_Key = Secret_SecretKey s\<rparr>\<rparr>\<rparr>])"

text \<open>
  What a call of \<open>createPod\<close> leaves behind: the \<open>Create\<close> calls it made on the pods
  client (namespace and pod submitted), and how it ended.
\<close>

record create_result =
  create_submitted :: "(string \<times> Pod) list"
  create_outcome :: "(string + Pod) outcome"

definition createPod :: "kube_env \<Rightarrow> Config \<Rightarrow> string list \<Rightarrow> string list \<Rightarrow> create_result" where
  "createPod env cfg command args =
     (case getKubeClient env (Config_Kubeconfig cfg) of
        Inl err \<Rightarrow>
          \<lparr>create_submitted = [], create_outcome = Fatal (''cannot get clientset: '' @ err)\<rparr>
      | Inr (clientset, _) \<Rightarrow>
          (let env_vars = secrets_loop (Config_Secrets cfg) [];
               pod = \<lparr>Pod_ObjectMeta =
                        \<lparr>ObjectMeta_Name = Config_Name cfg, ObjectMeta_Namespace = []\<rparr>,
                      Pod_Spec =
                        \<lparr>PodSpec_Containers =
                           [\<lparr>Container_Name = Config_Name cfg,
                             Container_Image = Config_Image cfg,
                             Container_Command = command,
                             Container_Args = args,
                             Container_TTY = False,
                             Container_Stdin = True,
                             Container_SecurityContext =
                               Some \<lparr>SecurityContext_Privileged = boolPtr False\<rparr>,
                             Container_ImagePullPolicy = PullAlways,
                             Container_Env = env_vars,
                             Container_VolumeMounts = []\<rparr>],
                         PodSpec_InitContainers = [],
                         PodSpec_RestartPolicy = RestartPolicyOnFailure,
                         PodSpec_Volumes = [],
                         PodSpec_ImagePullSecrets = []\<rparr>,
                      Pod_Status = \<lparr>PodStatus_Phase = []\<rparr>\<rparr>
           in \<lparr>create_submitted = [(Config_Namespace cfg, pod)],
               create_outcome = Return (PodsCreate env clientset (Config_Namespace cfg) pod)\<rparr>))"

section \<open>\<open>getStreamOptions\<close>, \<open>startStream\<close> and \<open>attach\<close>\<close>

definition zero_StreamOptions :: StreamOptions where
  "zero_StreamOptions =
     \<lparr>StreamOptions_Stdin = None, StreamOptions_Stdout = None, StreamOptions_Stderr = None,
      StreamOptions_Tty = False, StreamOptions_TerminalSizeQueue = None\<rparr>"

definition getStreamOptions ::
  "PodAttachOptions \<Rightarrow> reader option \<Rightarrow> writer option \<Rightarrow> writer option \<Rightarrow> StreamOptions" where
  "getStreamOptions attachOptions stdin stdout stderr =
     (let s0 = zero_StreamOptions;
          s1 = (if PodAttachOptions_Stdin attachOptions
                then s0\<lparr>StreamOptions_Stdin := stdin\<rparr> else s0);
          s2 = (if PodAttachOptions_Stdout attachOptions
                then s1\<lparr>StreamOptions_Stdout := stdout\<rparr> else s1);
          s3 = (if PodAttachOptions_Stderr attachOptions
                then s2\<lparr>StreamOptions_Stderr := stderr\<rparr> else s2)
      in s3)"

definition startStream ::
  "kube_env \<Rightarrow> string \<Rightarrow> Request \<Rightarrow> rest_config \<Rightarrow> StreamOptions \<Rightarrow> string option" where
  "startStream env method url config streamOptions =
     (case NewSPDYExecutor env config method url of
        Inl err \<Rightarrow> Some err
      | Inr exec \<Rightarrow> Stream env exec streamOptions)"

text \<open>
  \<open>attach\<close> writes through the pointer \<open>attachOptions\<close>, so its result carries the
  caller's options as they are when the call ends, next to the calls of \<open>startStream\<close>
  it made (the attach requests issued) and the way it ended: the returned error
  (\<open>None\<close> is nil), a panic, or the exit of \<open>log.Fatalf\<close>.
\<close>

record attach_result =
  attach_outcome :: "string option outcome"
  attach_options :: PodAttachOptions
  attach_requests :: "(string \<times> Request \<times> StreamOptions) list"

definition attach ::
  "kube_env \<Rightarrow> string \<Rightarrow> Pod \<Rightarrow> PodAttachOptions \<Rightarrow>
   reader option \<Rightarrow> writer option \<Rightarrow> writer option \<Rightarrow> attach_result" where
  "attach env kubeconfig pod attachOptions stdin stdout stderr =
     (case getKubeClient env kubeconfig of
        Inl err \<Rightarrow>
          \<lparr>attach_outcome = Fatal (''cannot get clientset: '' @ err),
           attach_options = attachOptions, attach_requests = []\<rparr>
      | Inr (clientset, config) \<Rightarrow>
          (case containerToAttachTo [] pod of
             Fatal msg \<Rightarrow>
               \<lparr>attach_outcome = Fatal msg,
                attach_options = attachOptions, attach_requests = []\<rparr>
           | Panic msg \<Rightarrow>
               \<lparr>attach_outcome = Panic msg,
                attach_options = attachOptions, attach_requests = []\<rparr>
           | Return (Inl err) \<Rightarrow>
               \<lparr>attach_outcome = Return (Some (''cannot get container to attach to: '' @ err)),
                attach_options = attachOptions, attach_requests = []\<rparr>
           | Return (Inr container) \<Rightarrow>
               (let req = \<lparr>Request_Verb = ''POST'',
                           Request_Resource = ''pods'',
                           Request_Name = Pod_Name pod,
                           Request_Namespace = Pod_Namespace pod,
                           Request_SubResource = ''attach'',
                           Request_Params = None\<rparr>;
                    attachOptions' = attachOptions
                      \<lparr>PodAttachOptions_Container :=
                         Container_Name (deref_container pod container)\<rparr>;
                    req' = req\<lparr>Request_Params := Some attachOptions'\<rparr>;
                    streamOptions = getStreamOptions attachOptions' stdin stdout stderr
                in (case startStream env ''POST'' req' config streamOptions of
                      Some err \<Rightarrow>
                        \<lparr>attach_outcome = Return (Some (''error executing: '' @ err)),
                         attach_options = attachOptions',
                         attach_requests = [(''POST'', req', streamOptions)]\<rparr>
                    | None \<Rightarrow>
                        \<lparr>attach_outcome = Return None,
                         attach_options = attachOptions',
                         attach_requests = [(''POST'', req', streamOptions)]\<rparr>))))"

section \<open>The stop signal: \<open>stopChan\<close>\<close>

text \<open>
  A \<open>chan struct{}\<close> on which nothing is ever sent is open or closed. Go's \<open>close\<close>
  panics on a closed channel. \<open>sync.Once\<close> is its \<open>done\<close> flag: \<open>Do(f)\<close> runs \<open>f\<close>
  and sets the flag when the flag is not set, and does nothing when it is set.
\<close>

datatype chan = Open | Closed

record stopChan =
  stopChan_c :: chan
  stopChan_Once_done :: bool

definition newStopChan :: stopChan where
  "newStopChan = \<lparr>stopChan_c = Open, stopChan_Once_done = False\<rparr>"

fun close_chan :: "chan \<Rightarrow> chan outcome" where
  "close_chan Open = Return Closed"
| "close_chan Closed = Panic ''close of closed channel''"

definition closeOnce :: "stopChan \<Rightarrow> stopChan outcome" where
  "closeOnce s =
     (if stopChan_Once_done s then Return s
      else (case close_chan (stopChan_c s) of
              Return c' \<Rightarrow> Return (s\<lparr>stopChan_c := c', stopChan_Once_done := True\<rparr>)
            | Panic msg \<Rightarrow> Panic msg
            | Fatal msg \<Rightarrow> Fatal msg))"

text \<open>\<open>n\<close> calls of \<open>closeOnce\<close> one after the other on the same \<open>stopChan\<close>.\<close>

fun closeOnce_times :: "nat \<Rightarrow> stopChan \<Rightarrow> stopChan outcome" where
  "closeOnce_times 0 s = Return s"
| "closeOnce_times (Suc n) s =
     (case closeOnce s of
        Return s' \<Rightarrow> closeOnce_times n s'
      | Panic msg \<Rightarrow> Panic msg
      | Fatal msg \<Rightarrow> Fatal msg)"

section \<open>\<open>waitPod\<close>\<close>

text \<open>
  The informer of \<open>client-go\<close> delivers the events of the watched namespace to the
  registered handlers, one at a time; \<open>waitPod\<close> registers an \<open>UpdateFunc\<close> only, so
  additions and deletions reach no handler. The events delivered while
  \<open>controller.Run\<close> runs are a parameter of the model.
\<close>

datatype event = AddEvent Pod | UpdateEvent Pod Pod | DeleteEvent Pod

definition UpdateFunc :: "Pod \<Rightarrow> stopChan \<Rightarrow> Pod \<Rightarrow> Pod \<Rightarrow> stopChan outcome" where
  "UpdateFunc pod stop o' newPod =
     (if Pod_Name newPod \<noteq> Pod_Name pod then Return stop
      else if PodStatus_Phase (Pod_Status newPod) = PodRunning then closeOnce stop
      else Return stop)"

fun handle_event :: "Pod \<Rightarrow> stopChan \<Rightarrow> event \<Rightarrow> stopChan outcome" where
  "handle_event pod stop (AddEvent n) = Return stop"
| "handle_event pod stop (UpdateEvent o' n) = UpdateFunc pod stop o' n"
| "handle_event pod stop (DeleteEvent n) = Return stop"

fun handle_events :: "Pod \<Rightarrow> stopChan \<Rightarrow> event list \<Rightarrow> stopChan outcome" where
  "handle_events pod stop [] = Return stop"
| "handle_events pod stop (e # es) =
     (case handle_event pod stop e of
        Return stop' \<Rightarrow> handle_events pod stop' es
      | Panic msg \<Rightarrow> Panic msg
      | Fatal msg \<Rightarrow> Fatal msg)"

text \<open>
  \<open>controller.Run(stop.c)\<close> returns when \<open>stop.c\<close> is closed and blocks as long as it
  is open. After the events \<open>events\<close>, \<open>waitPod\<close> has returned (\<open>Return True\<close>) or is
  still blocked in \<open>Run\<close> (\<open>Return False\<close>).
\<close>

definition waitPod :: "kube_env \<Rightarrow> string \<Rightarrow> Pod \<Rightarrow> event list \<Rightarrow> bool outcome" where
  "waitPod env kubeconfig pod events =
     (case getKubeClient env kubeconfig of
        Inl err \<Rightarrow> Fatal (''cannot get clientset: '' @ err)
      | Inr (clientset, _) \<Rightarrow>
          (case handle_events pod newStopChan events of
             Return stop \<Rightarrow> Return (stopChan_c stop = Closed)
           | Panic msg \<Rightarrow> Panic msg
           | Fatal msg \<Rightarrow> Fatal msg))"

text \<open>An update event that reports the watched pod as running.\<close>

fun running_update :: "Pod \<Rightarrow> event \<Rightarrow> bool" where
  "running_update pod (UpdateEvent o' n) \<longleftrightarrow>
     Pod_Name n = Pod_Name pod \<and> PodStatus_Phase (Pod_Status n) = PodRunning"
| "running_update pod (AddEvent n) \<longleftrightarrow> False"
| "running_update pod (DeleteEvent n) \<longleftrightarrow> False"

section \<open>Example objects\<close>

text \<open>Small concrete pods, on which the theorems below are instantiated.\<close>

definition example_container :: "string \<Rightarrow> Container" where
  "example_container name =
     \<lparr>Container_Name = name, Container_Image = ''busybox'', Container_Command = [],
      Container_Args = [], Container_TTY = False, Container_Stdin = True,
      Container_SecurityContext = None, Container_ImagePullPolicy = PullAlways,
      Container_Env = [], Container_VolumeMounts = []\<rparr>"

definition example_pod :: "string list \<Rightarrow> string list \<Rightarrow> Pod" where
  "example_pod names init_names =
     \<lparr>Pod_ObjectMeta = \<lparr>ObjectMeta_Name = ''job'', ObjectMeta_Namespace = ''default''\<rparr>,
      Pod_Spec = \<lparr>PodSpec_Containers = map example_container names,
                  PodSpec_InitContainers = map example_container init_names,
                  PodSpec_RestartPolicy = RestartPolicyOnFailure,
                  PodSpec_Volumes = [], PodSpec_ImagePullSecrets = []\<rparr>,
      Pod_Status = \<lparr>PodStatus_Phase = PodRunning\<rparr>\<rparr>"

definition example_env :: kube_env where
  "example_env =
     \<lparr>BuildConfigFromFlags = (\<lambda>masterUrl kubeconfig. Inr (RestConfig 0)),
      NewForConfig = (\<lambda>config. Inr (Clientset 0)),
      PodsCreate = (\<lambda>clientset namespace pod. Inr pod),
      NewSPDYExecutor = (\<lambda>config method url. Inr (Executor 0)),
      Stream = (\<lambda>exec streamOptions. None)\<rparr>"

definition example_update :: "string \<Rightarrow> string \<Rightarrow> event" where
  "example_update name phase =
     UpdateEvent (example_pod [name] [])
       ((example_pod [name] [])
          \<lparr>Pod_ObjectMeta := \<lparr>ObjectMeta_Name = name, ObjectMeta_Namespace = ''default''\<rparr>,
           Pod_Status := \<lparr>PodStatus_Phase = phase\<rparr>\<rparr>)"

definition example_config :: Config where
  "example_config =
     \<lparr>Config_Kubeconfig = ''/home/user/.kube/config'',
      Config_Namespace = ''default'',
      Config_Name = ''job'',
      Config_Image = ''busybox'',
      Config_Secrets =
        [\<lparr>Secret_EnvVarName = ''TOKEN'', Secret_SecretName = ''api'', Secret_SecretKey = ''token''\<rparr>,
         \<lparr>Secret_EnvVarName = ''PASSWORD'', Secret_SecretName = ''db'', Secret_SecretKey = ''pw''\<rparr>]\<rparr>"

definition example_options :: PodAttachOptions where
  "example_options =
     \<lparr>PodAttachOptions_Stdin = True, PodAttachOptions_Stdout = True,
      PodAttachOptions_Stderr = False, PodAttachOptions_TTY = False,
      PodAttachOptions_Container = ''b''\<rparr>"

section \<open>Properties of the container lookup\<close>

lemma name_loop_Some:
  "name_loop container cs k = Some i \<Longrightarrow>
     k \<le> i \<and> i < length cs \<and> Container_Name (cs ! i) = container \<and>
     (\<forall>j. k \<le> j \<and> j < i \<longrightarrow> Container_Name (cs ! j) \<noteq> container)"
proof (induction container cs k rule: name_loop.induct)
  case (1 container cs k)
  show ?case
  proof (cases "k < length cs")
    case False
    with "1.prems" show ?thesis by (simp add: name_loop.simps [of container cs k])
  next
    case inside: True
    show ?thesis
    proof (cases "Container_Name (cs ! k) = container")
      case True
      with inside "1.prems" have "i = k"
        by (simp add: name_loop.simps [of container cs k])
      with inside True show ?thesis by auto
    next
      case False
      with inside "1.prems" have rest: "name_loop container cs (Suc k) = Some i"
        by (simp add: name_loop.simps [of container cs k])
      from "1.IH" [OF inside False rest]
      have ih: "Suc k \<le> i" "i < length cs" "Container_Name (cs ! i) = container"
        "\<forall>j. Suc k \<le> j \<and> j < i \<longrightarrow> Container_Name (cs ! j) \<noteq> container"
        by simp_all
      have "\<forall>j. k \<le> j \<and> j < i \<longrightarrow> Container_Name (cs ! j) \<noteq> container"
      proof (intro allI impI)
        fix j assume j: "k \<le> j \<and> j < i"
        show "Container_Name (cs ! j) \<noteq> container"
        proof (cases "j = k")
          case True
          with False show ?thesis by simp
        next
          case False
          with j have "Suc k \<le> j \<and> j < i" by simp
          with ih(4) show ?thesis by blast
        qed
      qed
      with ih show ?thesis by simp
    qed
  qed
qed

lemma name_loop_None:
  "name_loop container cs k = None \<Longrightarrow>
     \<forall>j. k \<le> j \<and> j < length cs \<longrightarrow> Container_Name (cs ! j) \<noteq> container"
proof (induction container cs k rule: name_loop.induct)
  case (1 container cs k)
  show ?case
  proof (cases "k < length cs")
    case False
    then show ?thesis by auto
  next
    case inside: True
    from inside "1.prems" have differs: "Container_Name (cs ! k) \<noteq> container"
      by (auto simp: name_loop.simps [of container cs k] split: if_splits)
    with inside "1.prems" have rest: "name_loop container cs (Suc k) = None"
      by (simp add: name_loop.simps [of container cs k])
    from "1.IH" [OF inside differs rest]
    have ih: "\<forall>j. Suc k \<le> j \<and> j < length cs \<longrightarrow> Container_Name (cs ! j) \<noteq> container" .
    show ?thesis
    proof (intro allI impI)
      fix j assume j: "k \<le> j \<and> j < length cs"
      show "Container_Name (cs ! j) \<noteq> container"
      proof (cases "j = k")
        case True
        with differs show ?thesis by simp
      next
        case False
        with j have "Suc k \<le> j \<and> j < length cs" by simp
        with ih show ?thesis by blast
      qed
    qed
  qed
qed

lemma name_loop_first:
  "name_loop container cs 0 = Some i \<longleftrightarrow> first_named container cs i"
proof
  assume "name_loop container cs 0 = Some i"
  from name_loop_Some [OF this] show "first_named container cs i"
    by (simp add: first_named_def)
next
  assume f: "first_named container cs i"
  show "name_loop container cs 0 = Some i"
  proof (cases "name_loop container cs 0")
    case None
    from name_loop_None [OF None] f show ?thesis
      by (auto simp: first_named_def)
  next
    case (Some k)
    from name_loop_Some [OF Some]
    have k: "k < length cs" "Container_Name (cs ! k) = container"
      "\<forall>j. j < k \<longrightarrow> Container_Name (cs ! j) \<noteq> container"
      by simp_all
    from f have i: "i < length cs" "Container_Name (cs ! i) = container"
      "\<forall>j. j < i \<longrightarrow> Container_Name (cs ! j) \<noteq> container"
      by (simp_all add: first_named_def)
    have "\<not> k < i" using i(3) k(2) by blast
    moreover have "\<not> i < k" using k(3) i(2) by blast
    ultimately have "k = i" by simp
    with Some show ?thesis by simp
  qed
qed

lemma name_loop_absent:
  "name_loop container cs 0 = None \<longleftrightarrow> (\<forall>c \<in> set cs. Container_Name c \<noteq> container)"
proof
  assume "name_loop container cs 0 = None"
  from name_loop_None [OF this] show "\<forall>c \<in> set cs. Container_Name c \<noteq> container"
    by (auto simp: in_set_conv_nth)
next
  assume absent: "\<forall>c \<in> set cs. Container_Name c \<noteq> container"
  show "name_loop container cs 0 = None"
  proof (cases "name_loop container cs 0")
    case None
    then show ?thesis .
  next
    case (Some k)
    from name_loop_Some [OF Some]
    have "k < length cs" "Container_Name (cs ! k) = container" by simp_all
    then have "\<exists>c \<in> set cs. Container_Name c = container"
      using nth_mem by blast
    with absent show ?thesis by blast
  qed
qed

text \<open>
  Claim C1. For a non-empty container name, \<open>containerToAttachTo\<close> returns without
  error a reference to the first container of \<open>pod.Spec.Containers\<close> that carries the
  name; when no regular container carries it, a reference to the first such container
  of \<open>pod.Spec.InitContainers\<close>; when neither list holds the name, the error
  \<open>container not found\<close> and no container. A regular container is preferred to an
  init container of the same name, and the call always returns.
\<close>

theorem containerToAttachTo_lookup:
  assumes nonempty: "container \<noteq> []"
  shows "(\<forall>i. first_named container (PodSpec_Containers (Pod_Spec pod)) i \<longrightarrow>
            containerToAttachTo container pod = Return (Inr (InContainers i))) \<and>
         ((\<forall>c \<in> set (PodSpec_Containers (Pod_Spec pod)). Container_Name c \<noteq> container) \<longrightarrow>
            (\<forall>i. first_named container (PodSpec_InitContainers (Pod_Spec pod)) i \<longrightarrow>
               containerToAttachTo container pod = Return (Inr (InInitContainers i)))) \<and>
         ((\<forall>c \<in> set (PodSpec_Containers (Pod_Spec pod)). Container_Name c \<noteq> container) \<and>
          (\<forall>c \<in> set (PodSpec_InitContainers (Pod_Spec pod)). Container_Name c \<noteq> container) \<longrightarrow>
            containerToAttachTo container pod = Return (Inl (container_not_found container))) \<and>
         (\<exists>r. containerToAttachTo container pod = Return r)"
proof (intro conjI allI impI)
  fix i
  assume "first_named container (PodSpec_Containers (Pod_Spec pod)) i"
  then have "name_loop container (PodSpec_Containers (Pod_Spec pod)) 0 = Some i"
    by (simp add: name_loop_first)
  with nonempty show "containerToAttachTo container pod = Return (Inr (InContainers i))"
    by (simp add: containerToAttachTo_def)
next
  fix i
  assume "\<forall>c \<in> set (PodSpec_Containers (Pod_Spec pod)). Container_Name c \<noteq> container"
    and "first_named container (PodSpec_InitContainers (Pod_Spec pod)) i"
  then have "name_loop container (PodSpec_Containers (Pod_Spec pod)) 0 = None"
    and "name_loop container (PodSpec_InitContainers (Pod_Spec pod)) 0 = Some i"
    by (simp_all add: name_loop_first name_loop_absent)
  with nonempty show "containerToAttachTo container pod = Return (Inr (InInitContainers i))"
    by (simp add: containerToAttachTo_def)
next
  assume "(\<forall>c \<in> set (PodSpec_Containers (Pod_Spec pod)). Container_Name c \<noteq> container) \<and>
          (\<forall>c \<in> set (PodSpec_InitContainers (Pod_Spec pod)). Container_Name c \<noteq> container)"
  then have "name_loop container (PodSpec_Containers (Pod_Spec pod)) 0 = None"
    and "name_loop container (PodSpec_InitContainers (Pod_Spec pod)) 0 = None"
    by (simp_all add: name_loop_absent)
  with nonempty show "containerToAttachTo container pod = Return (Inl (container_not_found container))"
    by (simp add: containerToAttachTo_def)
next
  from nonempty show "\<exists>r. containerToAttachTo container pod = Return r"
    by (simp add: containerToAttachTo_def split: option.split)
qed

lemma first_named_example_b:
  "first_named ''b'' (PodSpec_Containers (Pod_Spec (example_pod [''a'', ''b''] [''b'', ''c'']))) 1"
  by (simp add: first_named_def example_pod_def example_container_def)

lemma first_named_example_c:
  "first_named ''c'' (PodSpec_InitContainers (Pod_Spec (example_pod [''a'', ''b''] [''b'', ''c'']))) 1"
  by (simp add: first_named_def example_pod_def example_container_def)

theorem containerToAttachTo_lookup_witness:
  "containerToAttachTo ''b'' (example_pod [''a'', ''b''] [''b'', ''c'']) = Return (Inr (InContainers 1)) \<and>
   containerToAttachTo ''c'' (example_pod [''a'', ''b''] [''b'', ''c'']) = Return (Inr (InInitContainers 1)) \<and>
   containerToAttachTo ''d'' (example_pod [''a'', ''b''] [''b'', ''c'']) =
     Return (Inl ''container not found (d)'')"
proof (intro conjI)
  have "''b'' \<noteq> []" by simp
  from containerToAttachTo_lookup [OF this, of "example_pod [''a'', ''b''] [''b'', ''c'']"]
    first_named_example_b
  show "containerToAttachTo ''b'' (example_pod [''a'', ''b''] [''b'', ''c'']) = Return (Inr (InContainers 1))"
    by blast
next
  have ne: "''c'' \<noteq> []" by simp
  have absent: "\<forall>c \<in> set (PodSpec_Containers (Pod_Spec (example_pod [''a'', ''b''] [''b'', ''c'']))).
      Container_Name c \<noteq> ''c''"
    by (simp add: example_pod_def example_container_def)
  from containerToAttachTo_lookup [OF ne, of "example_pod [''a'', ''b''] [''b'', ''c'']"]
    absent first_named_example_c
  show "containerToAttachTo ''c'' (example_pod [''a'', ''b''] [''b'', ''c'']) = Return (Inr (InInitContainers 1))"
    by blast
next
  have ne: "''d'' \<noteq> []" by simp
  have absent: "(\<forall>c \<in> set (PodSpec_Containers (Pod_Spec (example_pod [''a'', ''b''] [''b'', ''c'']))).
      Container_Name c \<noteq> ''d'') \<and>
     (\<forall>c \<in> set (PodSpec_InitContainers (Pod_Spec (example_pod [''a'', ''b''] [''b'', ''c'']))).
      Container_Name c \<noteq> ''d'')"
    by (simp add: example_pod_def example_container_def)
  from containerToAttachTo_lookup [OF ne, of "example_pod [''a'', ''b''] [''b'', ''c'']"] absent
  show "containerToAttachTo ''d'' (example_pod [''a'', ''b''] [''b'', ''c'']) =
     Return (Inl ''container not found (d)'')"
    by (simp add: container_not_found_def)
qed

text \<open>
  Claim C7. With an empty container name, \<open>containerToAttachTo\<close> indexes
  \<open>pod.Spec.Containers[0]\<close> without a check: for a pod with at least one container it
  returns a reference to the first container and a nil error; for a pod with no
  container the index is out of range, a panic. It returns exactly for the pods that
  have a container.
\<close>

theorem containerToAttachTo_empty_name:
  "(PodSpec_Containers (Pod_Spec pod) \<noteq> [] \<longrightarrow>
      containerToAttachTo [] pod = Return (Inr (InContainers 0)) \<and>
      deref_container pod (InContainers 0) = hd (PodSpec_Containers (Pod_Spec pod))) \<and>
   (PodSpec_Containers (Pod_Spec pod) = [] \<longrightarrow>
      containerToAttachTo [] pod = Panic ''runtime error: index out of range [0] with length 0'') \<and>
   ((\<exists>r. containerToAttachTo [] pod = Return r) \<longleftrightarrow> PodSpec_Containers (Pod_Spec pod) \<noteq> [])"
proof (cases "PodSpec_Containers (Pod_Spec pod)")
  case Nil
  then show ?thesis by (simp add: containerToAttachTo_def)
next
  case (Cons c cs)
  then show ?thesis by (simp add: containerToAttachTo_def)
qed

theorem containerToAttachTo_empty_name_witness:
  "containerToAttachTo [] (example_pod [''a'', ''b''] [''c'']) = Return (Inr (InContainers 0)) \<and>
   Container_Name (deref_container (example_pod [''a'', ''b''] [''c'']) (InContainers 0)) = ''a'' \<and>
   containerToAttachTo [] (example_pod [] [''c'']) = Panic ''runtime error: index out of range [0] with length 0''"
  using containerToAttachTo_empty_name [of "example_pod [''a'', ''b''] [''c'']"]
    containerToAttachTo_empty_name [of "example_pod [] [''c'']"]
  by (simp add: example_pod_def example_container_def)

section \<open>Properties of the stop signal\<close>

lemma closeOnce_done: "stopChan_Once_done s \<Longrightarrow> closeOnce s = Return s"
  by (simp add: closeOnce_def)

lemma closeOnce_new:
  "closeOnce newStopChan = Return \<lparr>stopChan_c = Closed, stopChan_Once_done = True\<rparr>"
  by (simp add: closeOnce_def newStopChan_def)

lemma closeOnce_times_done:
  "stopChan_Once_done s \<Longrightarrow> closeOnce_times n s = Return s"
  by (induction n) (simp_all add: closeOnce_done)

text \<open>
  Claim C2. The stop signal is one-shot and close-safe. The channel of a fresh
  \<open>stopChan\<close> is open; the first \<open>closeOnce\<close> closes it; after any positive number of
  calls the channel is closed and the \<open>Once\<close> is done; a call in that state changes
  nothing. A second \<open>close\<close> would be \<open>close_chan Closed\<close>, a panic: no number of
  calls panics, so the channel is closed once and \<open>closeOnce\<close> never fails.
\<close>

theorem closeOnce_one_shot:
  "stopChan_c newStopChan = Open \<and>
   closeOnce newStopChan = Return \<lparr>stopChan_c = Closed, stopChan_Once_done = True\<rparr> \<and>
   closeOnce_times (Suc n) newStopChan =
     Return \<lparr>stopChan_c = Closed, stopChan_Once_done = True\<rparr> \<and>
   closeOnce \<lparr>stopChan_c = Closed, stopChan_Once_done = True\<rparr> =
     Return \<lparr>stopChan_c = Closed, stopChan_Once_done = True\<rparr> \<and>
   (\<exists>s. closeOnce_times m newStopChan = Return s)"
proof -
  have later: "closeOnce_times k \<lparr>stopChan_c = Closed, stopChan_Once_done = True\<rparr> =
      Return \<lparr>stopChan_c = Closed, stopChan_Once_done = True\<rparr>" for k
    by (rule closeOnce_times_done) simp
  have first: "closeOnce_times (Suc k) newStopChan =
      Return \<lparr>stopChan_c = Closed, stopChan_Once_done = True\<rparr>" for k
    by (simp add: closeOnce_new later)
  have "\<exists>s. closeOnce_times m newStopChan = Return s"
  proof (cases m)
    case 0
    then show ?thesis by simp
  next
    case (Suc k)
    with first [of k] show ?thesis by simp
  qed
  moreover have "stopChan_c newStopChan = Open"
    by (simp add: newStopChan_def)
  moreover have "closeOnce \<lparr>stopChan_c = Closed, stopChan_Once_done = True\<rparr> =
      Return \<lparr>stopChan_c = Closed, stopChan_Once_done = True\<rparr>"
    by (rule closeOnce_done) simp
  ultimately show ?thesis using closeOnce_new first [of n] by simp
qed

section \<open>Properties of \<open>waitPod\<close>\<close>

lemma getKubeClient_example:
  "getKubeClient example_env kubeconfig = Inr (Clientset 0, RestConfig 0)"
  by (simp add: getKubeClient_def example_env_def)

lemma UpdateFunc_cases:
  "UpdateFunc pod stop old newPod =
     (if Pod_Name newPod = Pod_Name pod \<and> PodStatus_Phase (Pod_Status newPod) = PodRunning
      then closeOnce stop else Return stop)"
  by (simp add: UpdateFunc_def)

lemma handle_event_cases:
  "handle_event pod stop e = (if running_update pod e then closeOnce stop else Return stop)"
  by (cases e) (simp_all add: UpdateFunc_cases)

lemma handle_events_done:
  "stopChan_Once_done s \<Longrightarrow> handle_events pod s es = Return s"
  by (induction es) (simp_all add: handle_event_cases closeOnce_done)

lemma handle_events_new:
  "handle_events pod newStopChan es =
     Return (if \<exists>e \<in> set es. running_update pod e
             then \<lparr>stopChan_c = Closed, stopChan_Once_done = True\<rparr> else newStopChan)"
proof (induction es)
  case Nil
  show ?case by simp
next
  case (Cons e es)
  show ?case
  proof (cases "running_update pod e")
    case True
    then show ?thesis
      by (simp add: handle_event_cases closeOnce_new handle_events_done)
  next
    case False
    with Cons.IH show ?thesis
      by (simp add: handle_event_cases)
  qed
qed

lemma running_update_example [simp]:
  "running_update (example_pod cs is) (example_update name phase) \<longleftrightarrow>
     name = ''job'' \<and> phase = ''Running''"
  by (auto simp: example_update_def example_pod_def Pod_Name_def PodRunning_def)

text \<open>
  Claim C3. \<open>waitPod\<close> waits until the created pod is running. The handler closes the
  stop channel (through \<open>closeOnce\<close>) exactly on an update event whose new pod has the
  watched pod's name and the phase \<open>PodRunning\<close>; an update for another name or in
  another phase, an addition and a deletion leave the stop signal as it is. After any
  events the channel is closed if and only if one of them was such an update, and
  \<open>waitPod\<close> has returned only then.
\<close>

theorem waitPod_until_running:
  "UpdateFunc pod stop old newPod =
     (if Pod_Name newPod = Pod_Name pod \<and> PodStatus_Phase (Pod_Status newPod) = PodRunning
      then closeOnce stop else Return stop) \<and>
   handle_event pod stop (AddEvent newPod) = Return stop \<and>
   handle_event pod stop (DeleteEvent newPod) = Return stop \<and>
   handle_events pod newStopChan events =
     Return (if \<exists>e \<in> set events. running_update pod e
             then \<lparr>stopChan_c = Closed, stopChan_Once_done = True\<rparr> else newStopChan) \<and>
   (getKubeClient env kubeconfig = Inr (clientset, config) \<longrightarrow>
      waitPod env kubeconfig pod events = Return (\<exists>e \<in> set events. running_update pod e)) \<and>
   (waitPod env kubeconfig pod events = Return True \<longrightarrow>
      (\<exists>e \<in> set events. running_update pod e))"
proof -
  have run: "waitPod env kubeconfig pod events = Return (\<exists>e \<in> set events. running_update pod e)"
    if "getKubeClient env kubeconfig = Inr (clientset, config)" for clientset config
  proof -
    have "stopChan_c newStopChan = Open" by (simp add: newStopChan_def)
    with that show ?thesis by (simp add: waitPod_def handle_events_new)
  qed
  have only: "\<exists>e \<in> set events. running_update pod e"
    if ret: "waitPod env kubeconfig pod events = Return True"
  proof (cases "getKubeClient env kubeconfig")
    case (Inl err)
    with ret show ?thesis by (simp add: waitPod_def)
  next
    case (Inr client)
    obtain cs cfg where "client = (cs, cfg)" by (cases client)
    with Inr run [of cs cfg] ret show ?thesis by simp
  qed
  show ?thesis
    using run only by (simp add: UpdateFunc_cases handle_events_new)
qed

theorem waitPod_until_running_witness:
  "waitPod example_env [] (example_pod [''job''] [])
     [AddEvent (example_pod [''job''] []), example_update ''other'' ''Running'',
      example_update ''job'' ''Pending''] = Return False \<and>
   waitPod example_env [] (example_pod [''job''] [])
     [example_update ''other'' ''Running'', example_update ''job'' ''Pending'',
      example_update ''job'' ''Running'', example_update ''job'' ''Running''] = Return True"
  using
    waitPod_until_running [of "example_pod [''job''] []" _ _ _
      "[AddEvent (example_pod [''job''] []), example_update ''other'' ''Running'',
        example_update ''job'' ''Pending'']" example_env "[]" "Clientset 0" "RestConfig 0"]
    waitPod_until_running [of "example_pod [''job''] []" _ _ _
      "[example_update ''other'' ''Running'', example_update ''job'' ''Pending'',
        example_update ''job'' ''Running'', example_update ''job'' ''Running'']"
      example_env "[]" "Clientset 0" "RestConfig 0"]
  by (simp add: getKubeClient_example)

section \<open>Properties of \<open>getStreamOptions\<close>\<close>

text \<open>
  Claim C5. \<open>getStreamOptions\<close> sets each of the three streams of the returned
  \<open>StreamOptions\<close> to the stream passed in when the flag of the same name is true in the
  attach options, and leaves it nil when the flag is false; the other fields (\<open>Tty\<close>,
  \<open>TerminalSizeQueue\<close>) keep their zero values. For a stream that is not nil, the
  field is set if and only if the flag is true.
\<close>

theorem getStreamOptions_flags:
  "getStreamOptions attachOptions stdin stdout stderr =
     \<lparr>StreamOptions_Stdin = (if PodAttachOptions_Stdin attachOptions then stdin else None),
      StreamOptions_Stdout = (if PodAttachOptions_Stdout attachOptions then stdout else None),
      StreamOptions_Stderr = (if PodAttachOptions_Stderr attachOptions then stderr else None),
      StreamOptions_Tty = False,
      StreamOptions_TerminalSizeQueue = None\<rparr> \<and>
   (StreamOptions_Stdin (getStreamOptions attachOptions (Some r) stdout stderr) = Some r
      \<longleftrightarrow> PodAttachOptions_Stdin attachOptions) \<and>
   (StreamOptions_Stdout (getStreamOptions attachOptions stdin (Some w) stderr) = Some w
      \<longleftrightarrow> PodAttachOptions_Stdout attachOptions) \<and>
   (StreamOptions_Stderr (getStreamOptions attachOptions stdin stdout (Some w')) = Some w'
      \<longleftrightarrow> PodAttachOptions_Stderr attachOptions)"
  by (simp add: getStreamOptions_def zero_StreamOptions_def Let_def)

section \<open>Properties of \<open>createPod\<close>\<close>

lemma secrets_loop_map:
  "secrets_loop ss env =
     env @ map (\<lambda>s. \<lparr>EnvVar_Name = Secret_EnvVarName s,
                      EnvVar_Value = [],
                      EnvVar_ValueFrom = Some \<lparr>EnvVarSource_SecretKeyRef =
                        Some \<lparr>SecretKeySelector_Name = Secret_SecretName s,
                              SecretKeySelector_Key = Secret_SecretKey s\<rparr>\<rparr>\<rparr>) ss"
  by (induction ss arbitrary: env) simp_all

text \<open>
  Claim C9. Every pod that \<open>createPod\<close> submits (one, when the client can be built)
  goes to the namespace of the configuration and has exactly one container: its name
  is \<open>cfg.Name\<close>, its image \<open>cfg.Image\<close>, \<open>TTY\<close> is false, \<open>Stdin\<close> is true,
  \<open>SecurityContext.Privileged\<close> points to false, the pull policy is \<open>Always\<close>; the
  restart policy of the pod is \<open>OnFailure\<close>; the container's environment holds one
  secret-backed variable per entry of \<open>cfg.Secrets\<close>, in the same order, named
  \<open>EnvVarName\<close> and referring to the key \<open>SecretKey\<close> of the secret \<open>SecretName\<close>.
\<close>

theorem createPod_submitted_pod:
  "(getKubeClient env (Config_Kubeconfig cfg) = Inr (clientset, config) \<longrightarrow>
      length (create_submitted (createPod env cfg command args)) = 1) \<and>
   (\<forall>(namespace, pod) \<in> set (create_submitted (createPod env cfg command args)).
      namespace = Config_Namespace cfg \<and>
      PodSpec_RestartPolicy (Pod_Spec pod) = RestartPolicyOnFailure \<and>
      (\<exists>c. PodSpec_Containers (Pod_Spec pod) = [c] \<and>
           Container_Name c = Config_Name cfg \<and>
           Container_Image c = Config_Image cfg \<and>
           Container_TTY c = False \<and>
           Container_Stdin c = True \<and>
           Container_SecurityContext c = Some \<lparr>SecurityContext_Privileged = Some False\<rparr> \<and>
           Container_ImagePullPolicy c = PullAlways \<and>
           Container_Env c =
             map (\<lambda>s. \<lparr>EnvVar_Name = Secret_EnvVarName s,
                        EnvVar_Value = [],
                        EnvVar_ValueFrom = Some \<lparr>EnvVarSource_SecretKeyRef =
                          Some \<lparr>SecretKeySelector_Name = Secret_SecretName s,
                                SecretKeySelector_Key = Secret_SecretKey s\<rparr>\<rparr>\<rparr>)
                 (Config_Secrets cfg)))"
proof (cases "getKubeClient env (Config_Kubeconfig cfg)")
  case (Inl err)
  then show ?thesis by (simp add: createPod_def)
next
  case (Inr client)
  obtain cs rc where "client = (cs, rc)" by (cases client)
  with Inr show ?thesis
    by (simp add: createPod_def Let_def secrets_loop_map boolPtr_def)
qed

theorem createPod_submitted_pod_witness:
  "\<exists>pod c. create_submitted (createPod example_env example_config [''sh''] [''-c'', ''env'']) =
       [(''default'', pod)] \<and>
     PodSpec_Containers (Pod_Spec pod) = [c] \<and>
     Container_Name c = ''job'' \<and> Container_Image c = ''busybox'' \<and>
     map EnvVar_Name (Container_Env c) = [''TOKEN'', ''PASSWORD'']"
proof -
  from createPod_submitted_pod [of example_env example_config "Clientset 0" "RestConfig 0"
      "[''sh'']" "[''-c'', ''env'']"]
  have one: "length (create_submitted (createPod example_env example_config [''sh''] [''-c'', ''env''])) = 1"
    and all: "\<forall>(namespace, pod) \<in> set (create_submitted (createPod example_env example_config [''sh''] [''-c'', ''env''])).
      namespace = Config_Namespace example_config \<and>
      (\<exists>c. PodSpec_Containers (Pod_Spec pod) = [c] \<and>
           Container_Name c = Config_Name example_config \<and>
           Container_Image c = Config_Image example_config \<and>
           Container_Env c =
             map (\<lambda>s. \<lparr>EnvVar_Name = Secret_EnvVarName s,
                        EnvVar_Value = [],
                        EnvVar_ValueFrom = Some \<lparr>EnvVarSource_SecretKeyRef =
                          Some \<lparr>SecretKeySelector_Name = Secret_SecretName s,
                                SecretKeySelector_Key = Secret_SecretKey s\<rparr>\<rparr>\<rparr>)
                 (Config_Secrets example_config))"
    by (auto simp: getKubeClient_example)
  from one obtain x where x: "create_submitted (createPod example_env example_config [''sh''] [''-c'', ''env'']) = [x]"
    by (auto simp: length_Suc_conv)
  obtain ns pod where "x = (ns, pod)" by (cases x)
  with x all show ?thesis
    by (auto simp: example_config_def)
qed

section \<open>Properties of \<open>attach\<close>\<close>

lemma containerToAttachTo_first:
  "PodSpec_Containers (Pod_Spec pod) \<noteq> [] \<Longrightarrow>
     containerToAttachTo [] pod = Return (Inr (InContainers 0))"
  by (simp add: containerToAttachTo_def)

lemma containerToAttachTo_none:
  "PodSpec_Containers (Pod_Spec pod) = [] \<Longrightarrow>
     containerToAttachTo [] pod = Panic ''runtime error: index out of range [0] with length 0''"
  by (simp add: containerToAttachTo_def)

lemma attach_with_container:
  assumes client: "getKubeClient env kubeconfig = Inr (clientset, config)"
    and some: "PodSpec_Containers (Pod_Spec pod) \<noteq> []"
  shows "attach_options (attach env kubeconfig pod attachOptions stdin stdout stderr) =
           attachOptions\<lparr>PodAttachOptions_Container :=
             Container_Name (hd (PodSpec_Containers (Pod_Spec pod)))\<rparr>"
    and "attach_requests (attach env kubeconfig pod attachOptions stdin stdout stderr) =
           [(''POST'',
             \<lparr>Request_Verb = ''POST'', Request_Resource = ''pods'',
              Request_Name = Pod_Name pod, Request_Namespace = Pod_Namespace pod,
              Request_SubResource = ''attach'',
              Request_Params = Some (attachOptions\<lparr>PodAttachOptions_Container :=
                Container_Name (hd (PodSpec_Containers (Pod_Spec pod)))\<rparr>)\<rparr>,
             getStreamOptions (attachOptions\<lparr>PodAttachOptions_Container :=
                Container_Name (hd (PodSpec_Containers (Pod_Spec pod)))\<rparr>) stdin stdout stderr)]"
    and "attach_outcome (attach env kubeconfig pod attachOptions stdin stdout stderr) =
           Return (case startStream env ''POST''
               \<lparr>Request_Verb = ''POST'', Request_Resource = ''pods'',
                Request_Name = Pod_Name pod, Request_Namespace = Pod_Namespace pod,
                Request_SubResource = ''attach'',
                Request_Params = Some (attachOptions\<lparr>PodAttachOptions_Container :=
                  Container_Name (hd (PodSpec_Containers (Pod_Spec pod)))\<rparr>)\<rparr> config
               (getStreamOptions (attachOptions\<lparr>PodAttachOptions_Container :=
                  Container_Name (hd (PodSpec_Containers (Pod_Spec pod)))\<rparr>) stdin stdout stderr) of
             Some err \<Rightarrow> Some (''error executing: '' @ err) | None \<Rightarrow> None)"
proof -
  from some have sel: "containerToAttachTo [] pod = Return (Inr (InContainers 0))"
    by (rule containerToAttachTo_first)
  from some have first: "PodSpec_Containers (Pod_Spec pod) ! 0 = hd (PodSpec_Containers (Pod_Spec pod))"
    by (simp add: hd_conv_nth)
  show "attach_options (attach env kubeconfig pod attachOptions stdin stdout stderr) =
           attachOptions\<lparr>PodAttachOptions_Container :=
             Container_Name (hd (PodSpec_Containers (Pod_Spec pod)))\<rparr>"
    using client sel first by (simp add: attach_def Let_def split: option.split)
  show "attach_requests (attach env kubeconfig pod attachOptions stdin stdout stderr) =
           [(''POST'',
             \<lparr>Request_Verb = ''POST'', Request_Resource = ''pods'',
              Request_Name = Pod_Name pod, Request_Namespace = Pod_Namespace pod,
              Request_SubResource = ''attach'',
              Request_Params = Some (attachOptions\<lparr>PodAttachOptions_Container :=
                Container_Name (hd (PodSpec_Containers (Pod_Spec pod)))\<rparr>)\<rparr>,
             getStreamOptions (attachOptions\<lparr>PodAttachOptions_Container :=
                Container_Name (hd (PodSpec_Containers (Pod_Spec pod)))\<rparr>) stdin stdout stderr)]"
    using client sel first by (simp add: attach_def Let_def split: option.split)
  show "attach_outcome (attach env kubeconfig pod attachOptions stdin stdout stderr) =
           Return (case startStream env ''POST''
               \<lparr>Request_Verb = ''POST'', Request_Resource = ''pods'',
                Request_Name = Pod_Name pod, Request_Namespace = Pod_Namespace pod,
                Request_SubResource = ''attach'',
                Request_Params = Some (attachOptions\<lparr>PodAttachOptions_Container :=
                  Container_Name (hd (PodSpec_Containers (Pod_Spec pod)))\<rparr>)\<rparr> config
               (getStreamOptions (attachOptions\<lparr>PodAttachOptions_Container :=
                  Container_Name (hd (PodSpec_Containers (Pod_Spec pod)))\<rparr>) stdin stdout stderr) of
             Some err \<Rightarrow> Some (''error executing: '' @ err) | None \<Rightarrow> None)"
    using client sel first by (simp add: attach_def Let_def split: option.split)
qed

lemma attach_without_container:
  assumes client: "getKubeClient env kubeconfig = Inr (clientset, config)"
    and none: "PodSpec_Containers (Pod_Spec pod) = []"
  shows "attach env kubeconfig pod attachOptions stdin stdout stderr =
           \<lparr>attach_outcome = Panic ''runtime error: index out of range [0] with length 0'',
            attach_options = attachOptions, attach_requests = []\<rparr>"
  using client containerToAttachTo_none [OF none] by (simp add: attach_def)

lemma attach_without_client:
  assumes "getKubeClient env kubeconfig = Inl err"
  shows "attach env kubeconfig pod attachOptions stdin stdout stderr =
           \<lparr>attach_outcome = Fatal (''cannot get clientset: '' @ err),
            attach_options = attachOptions, attach_requests = []\<rparr>"
  using assms by (simp add: attach_def)

lemma containerToAttachTo_empty_name_no_error:
  "containerToAttachTo [] pod \<noteq> Return (Inl err)"
  by (simp add: containerToAttachTo_def)


text \<open>
  Claim C8. \<open>attach\<close> ignores the container name the caller put in
  \<open>attachOptions.Container\<close>: with a client and a pod that has a container, the caller's
  options end with \<open>Container\<close> overwritten by the name of the pod's first container,
  and the call does the same whatever name was supplied. In every case the fields
  other than \<open>Container\<close> are as the caller passed them.
\<close>

theorem attach_overwrites_container:
  "(getKubeClient env kubeconfig = Inr (clientset, config) \<and>
    PodSpec_Containers (Pod_Spec pod) \<noteq> [] \<longrightarrow>
      attach_options (attach env kubeconfig pod attachOptions stdin stdout stderr) =
        attachOptions\<lparr>PodAttachOptions_Container :=
          Container_Name (hd (PodSpec_Containers (Pod_Spec pod)))\<rparr> \<and>
      attach env kubeconfig pod (attachOptions\<lparr>PodAttachOptions_Container := container\<rparr>)
          stdin stdout stderr =
        attach env kubeconfig pod attachOptions stdin stdout stderr) \<and>
   (attach_options (attach env kubeconfig pod attachOptions stdin stdout stderr))
      \<lparr>PodAttachOptions_Container := PodAttachOptions_Container attachOptions\<rparr> = attachOptions"
proof -
  have frame: "(attach_options (attach env kubeconfig pod attachOptions stdin stdout stderr))
      \<lparr>PodAttachOptions_Container := PodAttachOptions_Container attachOptions\<rparr> = attachOptions"
  proof (cases "getKubeClient env kubeconfig")
    case (Inl err)
    from attach_without_client [OF Inl] show ?thesis by simp
  next
    case (Inr client)
    obtain cs rc where client: "getKubeClient env kubeconfig = Inr (cs, rc)"
      using Inr by (cases client) simp
    show ?thesis
    proof (cases "PodSpec_Containers (Pod_Spec pod) = []")
      case True
      from attach_without_container [OF client True] show ?thesis by simp
    next
      case False
      from attach_with_container(1) [OF client False] show ?thesis by simp
    qed
  qed
  have same: "attach env kubeconfig pod (attachOptions\<lparr>PodAttachOptions_Container := container\<rparr>)
          stdin stdout stderr =
        attach env kubeconfig pod attachOptions stdin stdout stderr"
    if client: "getKubeClient env kubeconfig = Inr (clientset, config)"
      and some: "PodSpec_Containers (Pod_Spec pod) \<noteq> []"
    using client containerToAttachTo_first [OF some]
    by (simp add: attach_def Let_def getStreamOptions_def)
  from frame same attach_with_container(1) show ?thesis by blast
qed

theorem attach_overwrites_container_witness:
  "attach_options (attach example_env [] (example_pod [''a'', ''b''] [''c'']) example_options
        (Some (Reader 0)) (Some (Writer 1)) (Some (Writer 2))) =
     example_options\<lparr>PodAttachOptions_Container := ''a''\<rparr> \<and>
   attach example_env [] (example_pod [''a'', ''b''] [''c''])
        (example_options\<lparr>PodAttachOptions_Container := ''c''\<rparr>)
        (Some (Reader 0)) (Some (Writer 1)) (Some (Writer 2)) =
     attach example_env [] (example_pod [''a'', ''b''] [''c'']) example_options
        (Some (Reader 0)) (Some (Writer 1)) (Some (Writer 2))"
proof -
  have some: "PodSpec_Containers (Pod_Spec (example_pod [''a'', ''b''] [''c''])) \<noteq> []"
    and first: "Container_Name (hd (PodSpec_Containers (Pod_Spec (example_pod [''a'', ''b''] [''c''])))) = ''a''"
    by (simp_all add: example_pod_def example_container_def)
  from attach_overwrites_container [of example_env "[]" "Clientset 0" "RestConfig 0"
      "example_pod [''a'', ''b''] [''c'']" example_options
      "Some (Reader 0)" "Some (Writer 1)" "Some (Writer 2)" "''c''"]
    getKubeClient_example [of "[]"] some first
  show ?thesis by simp
qed

end
